theory Spec2Isabelle
  imports Complex_Main "HOL-Library.Word" "HOL-Library.AList"
begin

section \<open>Strings and byte buffers\<close>

text \<open>
  A JavaScript string is modelled as a \<^typ>\<open>string\<close>. The program only ever inspects
  ASCII characters of its strings (the markers of a projection file, the separator
  \<open>/\<close>, the dot of an extension, the letters of the five extensions), so characters are
  compared by equality and nothing else is computed from them. A \<open>Buffer\<close> or
  \<open>Uint8Array\<close> is a list of bytes.
\<close>

type_synonym buffer = "8 word list"

text \<open>\<open>s.startsWith(t)\<close>.\<close>

fun startsWith :: "string \<Rightarrow> string \<Rightarrow> bool" where
  "startsWith s [] = True"
| "startsWith [] (c # t) = False"
| "startsWith (d # s) (c # t) = (d = c \<and> startsWith s t)"

text \<open>\<open>s.includes(t)\<close>: \<open>t\<close> occurs in \<open>s\<close> as a contiguous run of characters.\<close>

fun includes_str :: "string \<Rightarrow> string \<Rightarrow> bool" where
  "includes_str [] t = (t = [])"
| "includes_str (d # s) t = (startsWith (d # s) t \<or> includes_str s t)"

text \<open>
  A natural number in decimal digits, as a template literal and the keys of an array
  write it.
\<close>

fun nat_toString :: "nat \<Rightarrow> string" where
  "nat_toString n =
     (if n < 10 then [''0123456789'' ! n]
      else nat_toString (n div 10) @ [''0123456789'' ! (n mod 10)])"

declare nat_toString.simps [simp del]

subsection \<open>Constants of the script\<close>

definition UTM_ZONE_47N :: string where
  "UTM_ZONE_47N = ''+proj=utm +zone=47 +datum=WGS84 +units=m +no_defs''"

definition UTM_ZONE_48N :: string where
  "UTM_ZONE_48N = ''+proj=utm +zone=48 +datum=WGS84 +units=m +no_defs''"

definition WGS84 :: string where
  "WGS84 = ''EPSG:4326''"

definition ENABLE_SIMPLIFY :: bool where
  "ENABLE_SIMPLIFY = True"

section \<open>Projection resolver\<close>

text \<open>
  \<open>parsePrjFile(prjBuffer)\<close>. The argument is \<open>fileSet[".prj"]\<close>: a \<open>Buffer\<close>, or
  \<open>undefined\<close> when the component set has no \<open>.prj\<close> member (\<open>None\<close>). A \<open>Buffer\<close> is an
  object, so \<open>!prjBuffer\<close> holds for the absent argument only, also when the buffer
  is empty. \<open>prjBuffer.toString("utf-8")\<close> is the runtime's UTF-8 decoder; the model
  takes it as the parameter \<open>toString_utf8\<close>. The result is a string or \<open>null\<close>.
\<close>

definition parsePrjFile :: "(buffer \<Rightarrow> string) \<Rightarrow> buffer option \<Rightarrow> string option" where
  "parsePrjFile toString_utf8 prjBuffer =
     (case prjBuffer of
        None \<Rightarrow> None
      | Some buf \<Rightarrow>
          (let prjText = toString_utf8 buf in
           if includes_str prjText ''UTM_Zone_47'' \<or> includes_str prjText ''UTM Zone 47''
           then Some UTM_ZONE_47N
           else if includes_str prjText ''UTM_Zone_48'' \<or> includes_str prjText ''UTM Zone 48''
           then Some UTM_ZONE_48N
           else if includes_str prjText ''GCS_WGS_1984'' \<or> includes_str prjText ''WGS 84''
           then Some WGS84
           else Some prjText))"

text \<open>
  A decoder for the examples below: it reads every byte as the character of that
  code, which is what UTF-8 decoding does on ASCII bytes.
\<close>

definition ascii_text :: "buffer \<Rightarrow> string" where
  "ascii_text buf = map (\<lambda>b. char_of (unat b)) buf"

definition ascii_bytes :: "string \<Rightarrow> buffer" where
  "ascii_bytes s = map (\<lambda>c. of_char c) s"

section \<open>Values, objects and errors\<close>

text \<open>
  Geometries, coordinates and attribute values are JSON-like values. Numbers are the
  type parameter \<open>'n\<close>: the script never computes with a coordinate, it hands the
  numbers to the projection library and back.
\<close>

datatype 'n jsval =
    JUndefined
  | JNull
  | JBool bool
  | JNum 'n
  | JStr string
  | JArr "'n jsval list"
  | JObj "(string \<times> 'n jsval) list"

text \<open>
  A thrown value is an error object with a message, or a string: \<open>Error\<close> is what the
  script and the libraries throw with \<open>new Error(...)\<close>, \<open>TypeError\<close> what the runtime
  throws when a value is used as something it is not, and \<open>ThrownString\<close> a plain string
  that a library throws (the projection library throws the text of its complaint).
  \<open>error.message\<close> is the message of an error object and \<open>undefined\<close> on a string.
\<close>

datatype error = Error string | TypeError string | ThrownString string


text \<open>
  An object is the list of its own properties, in the order in which JavaScript
  enumerates them: the array indices (the canonical decimal strings below
  \<open>2\<^sup>3\<^sup>2 - 1\<close>) ascending, then the other keys in the order of their creation.
\<close>

type_synonym 'v obj = "(string \<times> 'v) list"

definition digit_of :: "char \<Rightarrow> int option" where
  "digit_of c = map_of (zip ''0123456789'' [0, 1, 2, 3, 4, 5, 6, 7, 8, 9]) c"

definition decimal :: "string \<Rightarrow> int" where
  "decimal s = foldl (\<lambda>n c. 10 * n + (case digit_of c of Some d \<Rightarrow> d | None \<Rightarrow> 0)) 0 s"

definition array_index :: "string \<Rightarrow> int option" where
  "array_index k =
     (if k \<noteq> [] \<and> list_all (\<lambda>c. digit_of c \<noteq> None) k \<and> (hd k \<noteq> CHR ''0'' \<or> k = ''0'')
         \<and> decimal k < 4294967295
      then Some (decimal k) else None)"

fun insert_index :: "int \<Rightarrow> string \<Rightarrow> 'v \<Rightarrow> 'v obj \<Rightarrow> 'v obj" where
  "insert_index n k v [] = [(k, v)]"
| "insert_index n k v ((k', v') # kvs) =
     (case array_index k' of
        Some m \<Rightarrow> if m < n then (k', v') # insert_index n k v kvs else (k, v) # (k', v') # kvs
      | None \<Rightarrow> (k, v) # (k', v') # kvs)"

text \<open>\<open>o[k]\<close> on an object's own properties, and \<open>o[k] = v\<close>.\<close>

definition obj_get :: "'n jsval obj \<Rightarrow> string \<Rightarrow> 'n jsval" where
  "obj_get kvs k = (case map_of kvs k of None \<Rightarrow> JUndefined | Some v \<Rightarrow> v)"

definition obj_set :: "string \<Rightarrow> 'v \<Rightarrow> 'v obj \<Rightarrow> 'v obj" where
  "obj_set k v kvs =
     (case map_of kvs k of
        Some old \<Rightarrow> AList.update k v kvs
      | None \<Rightarrow> (case array_index k of Some n \<Rightarrow> insert_index n k v kvs | None \<Rightarrow> kvs @ [(k, v)]))"

text \<open>\<open>xs.map(f)\<close> with a callback that may throw: the first error ends the loop.\<close>

fun mapM :: "('a \<Rightarrow> error + 'b) \<Rightarrow> 'a list \<Rightarrow> error + 'b list" where
  "mapM f [] = Inr []"
| "mapM f (x # xs) =
     (case f x of
        Inl e \<Rightarrow> Inl e
      | Inr y \<Rightarrow> (case mapM f xs of Inl e \<Rightarrow> Inl e | Inr ys \<Rightarrow> Inr (y # ys)))"

section \<open>Geometry reprojector\<close>

text \<open>
  \<open>proj4(sourceCRS, WGS84)\<close> is the projection library: it throws on a definition it
  cannot parse, or returns a converter whose \<open>forward\<close> maps a coordinate and may throw
  as well. The model takes it as a parameter.
\<close>

type_synonym 'n forward = "'n jsval \<Rightarrow> error + 'n jsval"
type_synonym 'n proj4 = "string \<Rightarrow> string \<Rightarrow> error + 'n forward"

text \<open>
  \<open>const [x, y] = r\<close>: the first two values that \<open>r\<close> iterates over, \<open>undefined\<close> where
  it has fewer. Arrays and strings are iterable; on any other value the destructuring
  throws.
\<close>

definition nth_or_undefined :: "'n jsval list \<Rightarrow> nat \<Rightarrow> 'n jsval" where
  "nth_or_undefined xs i = (if i < length xs then xs ! i else JUndefined)"

fun destructure_pair :: "'n jsval \<Rightarrow> error + ('n jsval \<times> 'n jsval)" where
  "destructure_pair (JArr xs) = Inr (nth_or_undefined xs 0, nth_or_undefined xs 1)"
| "destructure_pair (JStr s) =
     Inr (nth_or_undefined (map (\<lambda>c. JStr [c]) s) 0, nth_or_undefined (map (\<lambda>c. JStr [c]) s) 1)"
| "destructure_pair r = Inl (TypeError ''transform.forward(...) is not iterable'')"

text \<open>\<open>transformCoords(coords, depth)\<close>, the closure of \<open>transformGeometry\<close> over \<open>transform\<close>.\<close>

primrec transformCoords :: "'n forward \<Rightarrow> nat \<Rightarrow> 'n jsval \<Rightarrow> error + 'n jsval" where
  "transformCoords forward 0 coords =
     (case forward coords of
        Inl e \<Rightarrow> Inl e
      | Inr r \<Rightarrow> (case destructure_pair r of Inl e \<Rightarrow> Inl e | Inr (x, y) \<Rightarrow> Inr (JArr [x, y])))"
| "transformCoords forward (Suc depth) coords =
     (case coords of
        JArr cs \<Rightarrow>
          (case mapM (transformCoords forward depth) cs of Inl e \<Rightarrow> Inl e | Inr rs \<Rightarrow> Inr (JArr rs))
      | _ \<Rightarrow> Inl (TypeError ''coords.map is not a function''))"

text \<open>
  The \<open>switch\<close> on \<open>geometry.type\<close>: the depth at which the coordinates of a recognized
  kind are walked, \<open>None\<close> for any other value (no \<open>case\<close> matches, there is no
  \<open>default\<close>).
\<close>

definition depth_of_type :: "'n jsval \<Rightarrow> nat option" where
  "depth_of_type ty =
     (if ty = JStr ''Point'' then Some 0
      else if ty = JStr ''LineString'' \<or> ty = JStr ''MultiPoint'' then Some 1
      else if ty = JStr ''Polygon'' \<or> ty = JStr ''MultiLineString'' then Some 2
      else if ty = JStr ''MultiPolygon'' then Some 3
      else None)"

text \<open>
  \<open>transformGeometry(geometry, sourceCRS)\<close>. \<open>sourceCRS\<close> is a string or \<open>null\<close>;
  \<open>!sourceCRS\<close> holds for \<open>null\<close> and for the empty string. \<open>{ ...geometry }\<close> copies the
  own properties in their order, then \<open>transformed.coordinates\<close> is assigned.
\<close>

definition transformGeometry ::
  "'n proj4 \<Rightarrow> 'n jsval obj \<Rightarrow> string option \<Rightarrow> error + 'n jsval obj" where
  "transformGeometry proj4 geometry sourceCRS =
     (case sourceCRS of
        None \<Rightarrow> Inr geometry
      | Some crs \<Rightarrow>
          if crs = [] \<or> crs = WGS84 \<or> crs = ''EPSG:4326'' then Inr geometry
          else
            (case proj4 crs WGS84 of
               Inl e \<Rightarrow> Inl e
             | Inr forward \<Rightarrow>
                 (let transformed = geometry in
                  case depth_of_type (obj_get geometry ''type'') of
                    None \<Rightarrow> Inr transformed
                  | Some depth \<Rightarrow>
                      (case transformCoords forward depth (obj_get geometry ''coordinates'') of
                         Inl e \<Rightarrow> Inl e
                       | Inr coords \<Rightarrow> Inr (obj_set ''coordinates'' coords transformed)))))"

subsection \<open>Well-nested coordinates\<close>




text \<open>
  The depth of each kind as the specification lists it, to compare with the \<open>switch\<close>
  of the code.
\<close>

definition spec_depth_table :: "(string \<times> nat) list" where
  "spec_depth_table =
     [(''Point'', 0), (''LineString'', 1), (''MultiPoint'', 1), (''Polygon'', 2),
      (''MultiLineString'', 2), (''MultiPolygon'', 3)]"

section \<open>The reprojector on a store\<close>

text \<open>
  The values above are trees; they cannot say whether the result shares an array with
  the input or whether an object of the caller was written to. The second model of
  \<open>transformGeometry\<close> runs on a store: a value is a primitive or the address of a cell,
  a cell is an object or an array, and the store is the list of all cells, a new cell
  appended at its end. \<open>{ ...geometry }\<close> allocates an object with the same properties
  (the same values, so the same addresses); \<open>map\<close> and \<open>[x, y]\<close> allocate arrays;
  \<open>transformed.coordinates = ...\<close> is the one write to a cell that exists.

  The projection library reads the store and may allocate: \<open>forward\<close> returns its
  result and the cells it appends. That it does not write to the caller's cells is the
  assumption this type states.
\<close>

datatype 'n val =
    VUndefined
  | VNull
  | VBool bool
  | VNum 'n
  | VStr string
  | VRef nat

datatype 'n cell = Obj "'n val obj" | Arr "'n val list"

type_synonym 'n heap = "'n cell list"

text \<open>Reading a cell, allocating one, and \<open>o[k] = v\<close> on the object at an address.\<close>

definition cell_at :: "'n heap \<Rightarrow> nat \<Rightarrow> 'n cell option" where
  "cell_at h a = (if a < length h then Some (h ! a) else None)"

definition alloc :: "'n cell \<Rightarrow> 'n heap \<Rightarrow> nat \<times> 'n heap" where
  "alloc c h = (length h, h @ [c])"

definition set_property :: "nat \<Rightarrow> string \<Rightarrow> 'n val \<Rightarrow> 'n heap \<Rightarrow> 'n heap" where
  "set_property a k v h =
     (case cell_at h a of Some (Obj props) \<Rightarrow> h[a := Obj (obj_set k v props)] | _ \<Rightarrow> h)"

type_synonym 'n forward_h = "'n heap \<Rightarrow> 'n val \<Rightarrow> error + ('n val \<times> 'n cell list)"
type_synonym 'n proj4_h = "string \<Rightarrow> string \<Rightarrow> error + 'n forward_h"

text \<open>\<open>const [x, y] = r\<close> on the store: \<open>r\<close> is the address of an array, or a string.\<close>

definition element_or_undefined :: "'n val list \<Rightarrow> nat \<Rightarrow> 'n val" where
  "element_or_undefined xs i = (if i < length xs then xs ! i else VUndefined)"

definition destructure_pair_h :: "'n heap \<Rightarrow> 'n val \<Rightarrow> error + ('n val \<times> 'n val)" where
  "destructure_pair_h h r =
     (case r of
        VRef a \<Rightarrow>
          (case cell_at h a of
             Some (Arr xs) \<Rightarrow> Inr (element_or_undefined xs 0, element_or_undefined xs 1)
           | _ \<Rightarrow> Inl (TypeError ''transform.forward(...) is not iterable''))
      | VStr s \<Rightarrow>
          Inr (element_or_undefined (map (\<lambda>c. VStr [c]) s) 0,
               element_or_undefined (map (\<lambda>c. VStr [c]) s) 1)
      | _ \<Rightarrow> Inl (TypeError ''transform.forward(...) is not iterable''))"

text \<open>\<open>xs.map(f)\<close> with a callback that allocates and may throw.\<close>

fun mapM_h ::
  "('n heap \<Rightarrow> 'a \<Rightarrow> error + ('b \<times> 'n heap)) \<Rightarrow> 'a list \<Rightarrow> 'n heap \<Rightarrow> error + ('b list \<times> 'n heap)" where
  "mapM_h f [] h = Inr ([], h)"
| "mapM_h f (x # xs) h =
     (case f h x of
        Inl e \<Rightarrow> Inl e
      | Inr (y, h1) \<Rightarrow>
          (case mapM_h f xs h1 of Inl e \<Rightarrow> Inl e | Inr (ys, h2) \<Rightarrow> Inr (y # ys, h2)))"

text \<open>
  \<open>transformCoords\<close> and \<open>transformGeometry\<close>, statement by statement as above. The
  geometry is given by its address. An array has no \<open>type\<close>, so for an array the
  \<open>switch\<close> matches nothing and the copy of its elements under their indices is
  returned. An address beyond the store denotes nothing; no JavaScript value is such
  an address.
\<close>

primrec transformCoords_h ::
  "'n forward_h \<Rightarrow> nat \<Rightarrow> 'n heap \<Rightarrow> 'n val \<Rightarrow> error + ('n val \<times> 'n heap)" where
  "transformCoords_h forward 0 h coords =
     (case forward h coords of
        Inl e \<Rightarrow> Inl e
      | Inr (r, cells) \<Rightarrow>
          (case destructure_pair_h (h @ cells) r of
             Inl e \<Rightarrow> Inl e
           | Inr (x, y) \<Rightarrow>
               (let (a, h') = alloc (Arr [x, y]) (h @ cells) in Inr (VRef a, h'))))"
| "transformCoords_h forward (Suc depth) h coords =
     (case coords of
        VRef a \<Rightarrow>
          (case cell_at h a of
             Some (Arr cs) \<Rightarrow>
               (case mapM_h (transformCoords_h forward depth) cs h of
                  Inl e \<Rightarrow> Inl e
                | Inr (rs, h1) \<Rightarrow> (let (b, h') = alloc (Arr rs) h1 in Inr (VRef b, h')))
           | _ \<Rightarrow> Inl (TypeError ''coords.map is not a function''))
      | _ \<Rightarrow> Inl (TypeError ''coords.map is not a function''))"

definition depth_of_type_h :: "'n val \<Rightarrow> nat option" where
  "depth_of_type_h ty =
     (if ty = VStr ''Point'' then Some 0
      else if ty = VStr ''LineString'' \<or> ty = VStr ''MultiPoint'' then Some 1
      else if ty = VStr ''Polygon'' \<or> ty = VStr ''MultiLineString'' then Some 2
      else if ty = VStr ''MultiPolygon'' then Some 3
      else None)"

definition property :: "'n val obj \<Rightarrow> string \<Rightarrow> 'n val" where
  "property props k = (case map_of props k of None \<Rightarrow> VUndefined | Some v \<Rightarrow> v)"

definition transformGeometry_h ::
  "'n proj4_h \<Rightarrow> 'n heap \<Rightarrow> nat \<Rightarrow> string option \<Rightarrow> error + (nat \<times> 'n heap)" where
  "transformGeometry_h proj4 h geometry sourceCRS =
     (case sourceCRS of
        None \<Rightarrow> Inr (geometry, h)
      | Some crs \<Rightarrow>
          if crs = [] \<or> crs = WGS84 \<or> crs = ''EPSG:4326'' then Inr (geometry, h)
          else
            (case proj4 crs WGS84 of
               Inl e \<Rightarrow> Inl e
             | Inr forward \<Rightarrow>
                 (case cell_at h geometry of
                    Some (Obj props) \<Rightarrow>
                      (let (transformed, h1) = alloc (Obj props) h in
                       case depth_of_type_h (property props ''type'') of
                         None \<Rightarrow> Inr (transformed, h1)
                       | Some depth \<Rightarrow>
                           (case transformCoords_h forward depth h1 (property props ''coordinates'') of
                              Inl e \<Rightarrow> Inl e
                            | Inr (coords, h2) \<Rightarrow>
                                Inr (transformed, set_property transformed ''coordinates'' coords h2)))
                  | Some (Arr xs) \<Rightarrow>
                      (let (transformed, h1) =
                             alloc (Obj (zip (map nat_toString [0..<length xs]) xs)) h
                       in Inr (transformed, h1))
                  | None \<Rightarrow> Inl (TypeError ''no such cell''))))"

subsection \<open>A projection library for the examples\<close>

text \<open>
  The examples run the model with whole numbers as coordinates and with a stand-in for
  the library: it knows the two UTM definitions and throws on any other, and its
  \<open>forward\<close> scales a position down and throws on anything else.
\<close>

fun sample_forward :: "int forward" where
  "sample_forward (JArr (JNum x # JNum y # rest)) = Inr (JArr [JNum (x div 100000), JNum (y div 100000)])"
| "sample_forward v = Inl (TypeError ''coordinates must be finite numbers'')"

definition sample_proj4 :: "int proj4" where
  "sample_proj4 fromProj toProj =
     (if fromProj = UTM_ZONE_47N \<or> fromProj = UTM_ZONE_48N then Inr sample_forward
      else Inl (ThrownString (''Could not parse to valid json: '' @ fromProj)))"

text \<open>The same library on the store, and a store with one point geometry.\<close>

definition sample_forward_h :: "int forward_h" where
  "sample_forward_h h v =
     (case v of
        VRef a \<Rightarrow>
          (case cell_at h a of
             Some (Arr (VNum x # VNum y # rest)) \<Rightarrow>
               Inr (VRef (length h), [Arr [VNum (x div 100000), VNum (y div 100000)]])
           | _ \<Rightarrow> Inl (TypeError ''coordinates must be finite numbers''))
      | _ \<Rightarrow> Inl (TypeError ''coordinates must be finite numbers''))"

definition sample_proj4_h :: "int proj4_h" where
  "sample_proj4_h fromProj toProj =
     (if fromProj = UTM_ZONE_47N \<or> fromProj = UTM_ZONE_48N then Inr sample_forward_h
      else Inl (ThrownString (''Could not parse to valid json: '' @ fromProj)))"

definition sample_heap :: "int heap" where
  "sample_heap =
     [Arr [VNum 500000, VNum 1500000],
      Arr [VNum 499000, VNum 1499000, VNum 501000, VNum 1501000],
      Obj [(''type'', VStr ''Point''), (''bbox'', VRef 1), (''coordinates'', VRef 0)]]"

section \<open>The external world\<close>

text \<open>
  Everything the pipeline calls outside the script is a field of the environment:
  the network, the file system, the archive extractor, the shapefile reader, the
  projection library, the simplifier and the runtime's formatting of numbers. Each
  call that can throw returns an error or a value.

  \<^item> \<open>fetch\<close> gives a response with its \<open>ok\<close> flag, its status code and the outcome of
    \<open>arrayBuffer()\<close>.
  \<^item> \<open>createExtractorFromData\<close> stands for the creation of the extractor and the call
    of \<open>extract()\<close>, which reads the headers of the archive and throws on data that is
    no archive. \<open>extracted_files\<close> is the spreading of \<open>extracted.files\<close>, where the
    members are extracted: the members in archive order, each with the name of its
    header and its content (\<open>undefined\<close>, here \<open>None\<close>, for a directory).
  \<^item> \<open>shapefile_open\<close> gives a source: the records that \<open>read()\<close> returns one after the
    other, and how the sequence ends (\<open>done\<close>, or a thrown error). A record is a feature
    \<open>{type: "Feature", properties, geometry}\<close> whose geometry is an object or \<open>null\<close>.
  \<^item> \<open>writeFile\<close> and \<open>mkdir\<close> say whether the call throws; the file written is part of
    the result of the model.
\<close>

record response =
  ok :: bool
  http_status :: nat
  arrayBuffer :: "error + buffer"

record member =
  fileHeader_name :: string
  extraction :: "buffer option"

record 'n feature =
  properties :: "'n jsval"
  geometry :: "'n jsval obj option"

record 'n shp_source =
  records :: "'n feature list"
  read_error :: "error option"

record simplify_options =
  tolerance :: real
  highQuality :: bool

record 'n env =
  fetch :: "string \<Rightarrow> error + response"
  readFile :: "string \<Rightarrow> error + buffer"
  createExtractorFromData :: "buffer \<Rightarrow> error option"
  extracted_files :: "buffer \<Rightarrow> error + member list"
  mkdir :: "string \<Rightarrow> error option"
  toString_utf8 :: "buffer \<Rightarrow> string"
  shapefile_open :: "buffer \<Rightarrow> buffer \<Rightarrow> string \<Rightarrow> error + 'n shp_source"
  proj4 :: "'n proj4"
  simplify :: "'n feature \<Rightarrow> simplify_options \<Rightarrow> error + 'n feature"
  number_toString :: "'n \<Rightarrow> string"
  writeFile :: "string \<Rightarrow> string \<Rightarrow> error option"

definition SIMPLIFY_TOLERANCE :: real where
  "SIMPLIFY_TOLERANCE = 1 / 1000"

section \<open>Paths\<close>

text \<open>
  \<open>path.basename(p)\<close> and \<open>path.extname(p)\<close> of Node.js, for POSIX paths. The base name is
  the last portion of the path, trailing separators ignored. The extension runs from
  the last dot of the base name to its end; it is empty when the base name has no dot,
  when its only dot is its first character, and for \<open>..\<close>.
\<close>

definition basename :: "string \<Rightarrow> string" where
  "basename p =
     rev (takeWhile (\<lambda>c. c \<noteq> CHR ''/'') (dropWhile (\<lambda>c. c = CHR ''/'') (rev p)))"

definition extname :: "string \<Rightarrow> string" where
  "extname p =
     (let b = basename p;
          after_dot = takeWhile (\<lambda>c. c \<noteq> CHR ''.'') (rev b);
          upto_dot = dropWhile (\<lambda>c. c \<noteq> CHR ''.'') (rev b)
      in if upto_dot = [] \<or> tl upto_dot = [] \<or> b = ''..'' then []
         else CHR ''.'' # rev after_dot)"

text \<open>
  \<open>path.basename(p, ext)\<close>: the base name without \<open>ext\<close>, when the base name ends with
  \<open>ext\<close> and is longer. The characters are compared as they are, so the case of the
  letters counts. (The script passes a file name without separators; on a path with a
  trailing separator Node.js differs from this definition.)
\<close>

definition endsWith :: "string \<Rightarrow> string \<Rightarrow> bool" where
  "endsWith s t = startsWith (rev s) (rev t)"

definition basename_ext :: "string \<Rightarrow> string \<Rightarrow> string" where
  "basename_ext p ext =
     (let b = basename p
      in if ext = p then []
         else if ext \<noteq> [] \<and> length ext \<le> length p \<and> b \<noteq> ext \<and> endsWith b ext
         then take (length b - length ext) b
         else b)"

text \<open>\<open>s.toLowerCase()\<close>, on the letters A to Z.\<close>

definition toLowerCase :: "string \<Rightarrow> string" where
  "toLowerCase s =
     map (\<lambda>c. case map_of (zip ''ABCDEFGHIJKLMNOPQRSTUVWXYZ'' ''abcdefghijklmnopqrstuvwxyz'') c of
                 Some l \<Rightarrow> l | None \<Rightarrow> c) s"

section \<open>Grouping the members of an archive\<close>

definition shape_extensions :: "string list" where
  "shape_extensions = [''.shp'', ''.shx'', ''.dbf'', ''.prj'', ''.cpg'']"

text \<open>
  \<open>shapeFiles\<close> and every component set are created as \<open>{}\<close>, so they inherit the
  properties of \<open>Object.prototype\<close>, and the script reads them with \<open>o[k]\<close>, which
  follows the inheritance. Two things follow.

  \<^item> For a base name that is a property of \<open>Object.prototype\<close>, \<open>shapeFiles[baseName]\<close>
    is the inherited value, which is truthy: no component set is created, and the
    buffer is assigned to a property of the inherited value.
  \<^item> For the base name \<open>__proto__\<close> the inherited value is \<open>Object.prototype\<close> itself:
    the buffer becomes a property of \<open>Object.prototype\<close> under its extension, and from
    then on every object inherits it, in this archive and in every later one.

  So the model carries the properties that the script has put on \<open>Object.prototype\<close>:
  \<open>proto\<close>, empty when the process starts. Its keys are among the five extensions.
  The script reads them only through \<open>fileSet[ext]\<close>; the libraries are taken not to
  read them.
\<close>

definition object_prototype_keys :: "string list" where
  "object_prototype_keys =
     [''constructor'', ''__defineGetter__'', ''__defineSetter__'', ''hasOwnProperty'',
      ''__lookupGetter__'', ''__lookupSetter__'', ''isPrototypeOf'', ''propertyIsEnumerable'',
      ''toString'', ''valueOf'', ''__proto__'', ''toLocaleString'']"

type_synonym proto = "buffer obj"

text \<open>\<open>fileSet[ext]\<close>: the own property, or else the inherited one.\<close>

definition fileSet_get :: "proto \<Rightarrow> buffer obj \<Rightarrow> string \<Rightarrow> buffer option" where
  "fileSet_get proto fileSet ext =
     (case map_of fileSet ext of Some b \<Rightarrow> Some b | None \<Rightarrow> map_of proto ext)"

text \<open>
  The body of the loop over the extracted files, on \<open>shapeFiles\<close> and \<open>proto\<close>. When
  \<open>shapeFiles\<close> has the base name as its own property, the buffer goes into that
  component set. When it inherits a value under the base name, the buffer goes to that
  value, which shows only if the value is \<open>Object.prototype\<close>. Otherwise a component
  set is created for the buffer.
\<close>

definition add_shape_file :: "member \<Rightarrow> buffer obj obj \<times> proto \<Rightarrow> buffer obj obj \<times> proto" where
  "add_shape_file file state =
     (let (shapeFiles, proto) = state in
      case extraction file of
        None \<Rightarrow> (shapeFiles, proto)
      | Some data \<Rightarrow>
          (let fileName = basename (fileHeader_name file);
               ext = toLowerCase (extname fileName)
           in if ext \<in> set shape_extensions then
                (let baseName = basename_ext fileName ext
                 in case map_of shapeFiles baseName of
                      Some fileSet \<Rightarrow> (obj_set baseName (obj_set ext data fileSet) shapeFiles, proto)
                    | None \<Rightarrow>
                        if baseName = ''__proto__'' then (shapeFiles, obj_set ext data proto)
                        else if baseName \<in> set object_prototype_keys \<or> map_of proto baseName \<noteq> None
                        then (shapeFiles, proto)
                        else (obj_set baseName (obj_set ext data []) shapeFiles, proto))
              else (shapeFiles, proto)))"

definition group_shape_files :: "member list \<Rightarrow> proto \<Rightarrow> buffer obj obj \<times> proto" where
  "group_shape_files files proto = fold add_shape_file files ([], proto)"

section \<open>Converting a component set\<close>

text \<open>\<open>sourceCRS || UTM_ZONE_47N\<close>: \<open>null\<close> and the empty string are falsy.\<close>

definition crs_or_default :: "string option \<Rightarrow> string" where
  "crs_or_default sourceCRS =
     (case sourceCRS of None \<Rightarrow> UTM_ZONE_47N | Some crs \<Rightarrow> if crs = [] then UTM_ZONE_47N else crs)"

text \<open>
  The body of the \<open>while\<close> loop for one record: reproject the geometry if there is one,
  then simplify it if its type is one of the four. The two counters of the loop only
  feed the console and are left out.
\<close>

definition process_feature :: "'n env \<Rightarrow> string option \<Rightarrow> 'n feature \<Rightarrow> error + 'n feature" where
  "process_feature env sourceCRS feature =
     (case geometry feature of
        None \<Rightarrow> Inr feature
      | Some g \<Rightarrow>
          (case transformGeometry (proj4 env) g (Some (crs_or_default sourceCRS)) of
             Inl e \<Rightarrow> Inl e
           | Inr g' \<Rightarrow>
               (let feature1 = feature\<lparr>geometry := Some g'\<rparr>;
                    ty = obj_get g' ''type''
                in if ENABLE_SIMPLIFY \<and>
                      (ty = JStr ''Polygon'' \<or> ty = JStr ''MultiPolygon'' \<or>
                       ty = JStr ''LineString'' \<or> ty = JStr ''MultiLineString'')
                   then
                     (case simplify env feature1
                             \<lparr>tolerance = SIMPLIFY_TOLERANCE, highQuality = True\<rparr> of
                        Inl e \<Rightarrow> Inl e
                      | Inr simplified \<Rightarrow> Inr (feature1\<lparr>geometry := geometry simplified\<rparr>))
                   else Inr feature1)))"

text \<open>
  The \<open>while\<close> loop: every record is processed as it is read; an error of the
  processing or of a later \<open>read()\<close> ends the loop and the conversion.
\<close>

definition read_features :: "'n env \<Rightarrow> string option \<Rightarrow> 'n shp_source \<Rightarrow> error + 'n feature list" where
  "read_features env sourceCRS source =
     (case mapM (process_feature env sourceCRS) (records source) of
        Inl e \<Rightarrow> Inl e
      | Inr features \<Rightarrow> (case read_error source of Some e \<Rightarrow> Inl e | None \<Rightarrow> Inr features))"

text \<open>The objects that are serialized.\<close>

definition feature_json :: "'n feature \<Rightarrow> 'n jsval" where
  "feature_json feature =
     JObj [(''type'', JStr ''Feature''),
           (''properties'', properties feature),
           (''geometry'', (case geometry feature of None \<Rightarrow> JNull | Some g \<Rightarrow> JObj g))]"

definition FeatureCollection :: "'n feature list \<Rightarrow> 'n jsval" where
  "FeatureCollection features =
     JObj [(''type'', JStr ''FeatureCollection''), (''features'', JArr (map feature_json features))]"

text \<open>The test \<open>fileSet[".shp"] && fileSet[".dbf"]\<close>: a buffer is truthy, \<open>undefined\<close> is not.\<close>

definition complete_set :: "proto \<Rightarrow> buffer obj \<Rightarrow> bool" where
  "complete_set proto fileSet =
     (fileSet_get proto fileSet ''.shp'' \<noteq> None \<and> fileSet_get proto fileSet ''.dbf'' \<noteq> None)"

text \<open>
  The body of the loop over \<open>Object.entries(shapeFiles)\<close> for one entry: \<open>None\<close> when
  the set has no \<open>.shp\<close> or no \<open>.dbf\<close> (nothing is pushed), the pushed
  \<open>{ name, geojson }\<close> otherwise.
\<close>

definition convert_file_set ::
  "'n env \<Rightarrow> proto \<Rightarrow> string \<Rightarrow> buffer obj \<Rightarrow> error + (string \<times> 'n jsval) option" where
  "convert_file_set env proto name fileSet =
     (case (fileSet_get proto fileSet ''.shp'', fileSet_get proto fileSet ''.dbf'') of
        (Some shp, Some dbf) \<Rightarrow>
          (let sourceCRS = parsePrjFile (toString_utf8 env) (fileSet_get proto fileSet ''.prj'')
           in case shapefile_open env shp dbf ''tis-620'' of
                Inl e \<Rightarrow> Inl e
              | Inr source \<Rightarrow>
                  (case read_features env sourceCRS source of
                     Inl e \<Rightarrow> Inl e
                   | Inr features \<Rightarrow> Inr (Some (name, FeatureCollection features))))
      | _ \<Rightarrow> Inr None)"

fun convert_file_sets ::
  "'n env \<Rightarrow> proto \<Rightarrow> buffer obj obj \<Rightarrow> (string \<times> 'n jsval) list
     \<Rightarrow> error + (string \<times> 'n jsval) list" where
  "convert_file_sets env proto [] results = Inr results"
| "convert_file_sets env proto ((name, fileSet) # entries) results =
     (case convert_file_set env proto name fileSet of
        Inl e \<Rightarrow> Inl e
      | Inr None \<Rightarrow> convert_file_sets env proto entries results
      | Inr (Some r) \<Rightarrow> convert_file_sets env proto entries (results @ [r]))"

section \<open>Writing the result\<close>

text \<open>
  \<open>JSON.stringify(value, null, 2)\<close> on a value without cycles: a property whose value is
  \<open>undefined\<close> is left out of an object, \<open>undefined\<close> in an array is written \<open>null\<close>, an
  object or array without entries is written without a line break, and every level is
  indented by two more spaces. How a number is written is left to the environment.
\<close>

definition hex_digit :: "nat \<Rightarrow> char" where
  "hex_digit d = ''0123456789abcdef'' ! d"

definition json_escape :: "char \<Rightarrow> string" where
  "json_escape c =
     (if c = CHR 0x22 then [CHR 0x5C, CHR 0x22]
      else if c = CHR 0x5C then [CHR 0x5C, CHR 0x5C]
      else if c = CHR 0x08 then [CHR 0x5C, CHR ''b'']
      else if c = CHR 0x0C then [CHR 0x5C, CHR ''f'']
      else if c = CHR 0x0A then [CHR 0x5C, CHR ''n'']
      else if c = CHR 0x0D then [CHR 0x5C, CHR ''r'']
      else if c = CHR 0x09 then [CHR 0x5C, CHR ''t'']
      else if (of_char c :: nat) < 32
      then [CHR 0x5C, CHR ''u'', CHR ''0'', CHR ''0'',
            hex_digit ((of_char c :: nat) div 16), hex_digit ((of_char c :: nat) mod 16)]
      else [c])"

definition json_quote :: "string \<Rightarrow> string" where
  "json_quote s = [CHR 0x22] @ concat (map json_escape s) @ [CHR 0x22]"

fun join :: "string \<Rightarrow> string list \<Rightarrow> string" where
  "join sep [] = []"
| "join sep [x] = x"
| "join sep (x # y # ys) = x @ sep @ join sep (y # ys)"

fun JSON_serialize :: "('n \<Rightarrow> string) \<Rightarrow> string \<Rightarrow> 'n jsval \<Rightarrow> string option" where
  "JSON_serialize num indent JUndefined = None"
| "JSON_serialize num indent JNull = Some ''null''"
| "JSON_serialize num indent (JBool b) = Some (if b then ''true'' else ''false'')"
| "JSON_serialize num indent (JNum n) = Some (num n)"
| "JSON_serialize num indent (JStr s) = Some (json_quote s)"
| "JSON_serialize num indent (JArr xs) =
     (let partial = map (\<lambda>x. case JSON_serialize num (indent @ ''  '') x of
                                None \<Rightarrow> ''null'' | Some t \<Rightarrow> t) xs
      in if partial = [] then Some ''[]''
         else Some (''['' @ [CHR 0x0A] @ indent @ ''  ''
                    @ join ('','' @ [CHR 0x0A] @ indent @ ''  '') partial
                    @ [CHR 0x0A] @ indent @ '']''))"
| "JSON_serialize num indent (JObj kvs) =
     (let partial = concat (map (\<lambda>kv. case JSON_serialize num (indent @ ''  '') (snd kv) of
                                        None \<Rightarrow> [] | Some t \<Rightarrow> [json_quote (fst kv) @ '': '' @ t]) kvs)
      in if partial = [] then Some ''{}''
         else Some (''{'' @ [CHR 0x0A] @ indent @ ''  ''
                    @ join ('','' @ [CHR 0x0A] @ indent @ ''  '') partial
                    @ [CHR 0x0A] @ indent @ ''}''))"

definition JSON_stringify :: "('n \<Rightarrow> string) \<Rightarrow> 'n jsval \<Rightarrow> string option" where
  "JSON_stringify num v = JSON_serialize num [] v"

text \<open>
  The value that is serialized: the \<open>geojson\<close> of the only result when there is exactly
  one, and otherwise the object \<open>combined\<close>, filled by \<open>combined[name] = geojson\<close> over
  the results.
\<close>

definition combine_results :: "(string \<times> 'n jsval) list \<Rightarrow> 'n jsval obj" where
  "combine_results results = fold (\<lambda>r combined. obj_set (fst r) (snd r) combined) results []"

definition output_value :: "(string \<times> 'n jsval) list \<Rightarrow> 'n jsval" where
  "output_value results =
     (if length results = 1 then snd (results ! 0) else JObj (combine_results results))"

text \<open>
  A file written: its path and its content. \<open>writeFile\<close> throws a \<open>TypeError\<close> when its
  data is \<open>undefined\<close>.
\<close>

record written =
  path :: string
  content :: string

definition write_results :: "'n env \<Rightarrow> string \<Rightarrow> (string \<times> 'n jsval) list \<Rightarrow> error + written" where
  "write_results env outputJsonPath results =
     (case JSON_stringify (number_toString env) (output_value results) of
        None \<Rightarrow> Inl (TypeError ''The data argument must be of type string'')
      | Some text \<Rightarrow>
          (case writeFile env outputJsonPath text of
             Some e \<Rightarrow> Inl e
           | None \<Rightarrow> Inr \<lparr>path = outputJsonPath, content = text\<rparr>))"

section \<open>The pipeline for one archive\<close>

text \<open>The download of the archive: \<open>fetch\<close>, the check of \<open>response.ok\<close>, the body.\<close>

definition download :: "'n env \<Rightarrow> string \<Rightarrow> error + buffer" where
  "download env rarPath =
     (case fetch env rarPath of
        Inl e \<Rightarrow> Inl e
      | Inr response \<Rightarrow>
          if \<not> ok response
          then Inl (Error (''HTTP error! status: '' @ nat_toString (http_status response)))
          else arrayBuffer response)"

text \<open>
  Everything after the archive is in memory: the extractor, the scratch directory, the
  extraction, the grouping, the conversion of every complete set and the writing. It
  is the same in both variants of the script. The result is what the call returns or
  throws, and \<open>proto\<close> as the call leaves it.
\<close>

definition convert_rar_data ::
  "'n env \<Rightarrow> proto \<Rightarrow> buffer \<Rightarrow> string \<Rightarrow> (error + written) \<times> proto" where
  "convert_rar_data env proto rarData outputJsonPath =
     (case createExtractorFromData env rarData of
        Some e \<Rightarrow> (Inl e, proto)
      | None \<Rightarrow>
          (case mkdir env ''./temp_extracted'' of
             Some e \<Rightarrow> (Inl e, proto)
           | None \<Rightarrow>
               (case extracted_files env rarData of
                  Inl e \<Rightarrow> (Inl e, proto)
                | Inr files \<Rightarrow>
                    (let (shapeFiles, proto') = group_shape_files files proto in
                     case convert_file_sets env proto' shapeFiles [] of
                       Inl e \<Rightarrow> (Inl e, proto')
                     | Inr results \<Rightarrow> (write_results env outputJsonPath results, proto')))))"

text \<open>
  \<open>extractRarAndConvert(rarPath, outputJsonPath)\<close> of \<open>index.js\<close>, which reads a local
  file when the path is not a URL. The \<open>catch\<close> logs the error and throws it again, so
  an error of any step is the error of the call.
\<close>

definition extractRarAndConvert ::
  "'n env \<Rightarrow> proto \<Rightarrow> string \<Rightarrow> string \<Rightarrow> (error + written) \<times> proto" where
  "extractRarAndConvert env proto rarPath outputJsonPath =
     (case (if startsWith rarPath ''http://'' \<or> startsWith rarPath ''https://''
            then download env rarPath
            else readFile env rarPath) of
        Inl e \<Rightarrow> (Inl e, proto)
      | Inr rarData \<Rightarrow> convert_rar_data env proto rarData outputJsonPath)"

text \<open>The same function in the second variant of the script, which always downloads.\<close>

definition extractRarAndConvert_url ::
  "'n env \<Rightarrow> proto \<Rightarrow> string \<Rightarrow> string \<Rightarrow> (error + written) \<times> proto" where
  "extractRarAndConvert_url env proto rarPath outputJsonPath =
     (case download env rarPath of
        Inl e \<Rightarrow> (Inl e, proto)
      | Inr rarData \<Rightarrow> convert_rar_data env proto rarData outputJsonPath)"

section \<open>Batch driver\<close>

record batch_source =
  url :: string
  outputPath :: string

record outcome = batch_source +
  status :: string
  error :: "string option"





section \<open>An environment for the examples\<close>

text \<open>
  A small world to run the pipeline in: four archives behind four URLs (one complete
  set and a stray index file; two complete sets, one with a projection file; no
  complete set; a set with upper-case extensions), any other URL answering 404, a
  shapefile reader with one or two records per set, the projection library of the
  examples, a simplifier that marks the geometry it is given, and a file system that
  accepts writes below \<open>output/\<close>.
\<close>

definition int_toString :: "int \<Rightarrow> string" where
  "int_toString i = (if i < 0 then ''-'' @ nat_toString (nat (- i)) else nat_toString (nat i))"

definition sample_simplify :: "int feature \<Rightarrow> simplify_options \<Rightarrow> error + int feature" where
  "sample_simplify feature options =
     Inr (feature\<lparr>geometry := map_option (obj_set ''simplified'' (JBool (highQuality options))) (geometry feature)\<rparr>)"

definition sample_point :: "int feature" where
  "sample_point = \<lparr>properties = JObj [(''name'', JStr ''well'')],
                   geometry = Some [(''type'', JStr ''Point''), (''coordinates'', JArr [JNum 500000, JNum 1500000])]\<rparr>"

definition sample_line :: "int feature" where
  "sample_line = \<lparr>properties = JObj [(''name'', JStr ''road'')],
                  geometry = Some [(''type'', JStr ''LineString''),
                                   (''coordinates'', JArr [JArr [JNum 500000, JNum 1500000], JArr [JNum 600000, JNum 1600000]])]\<rparr>"

definition sample_null :: "int feature" where
  "sample_null = \<lparr>properties = JObj [(''name'', JStr ''unknown'')], geometry = None\<rparr>"

definition sample_unrar :: "buffer \<Rightarrow> error + member list" where
  "sample_unrar rarData =
     (if rarData = [1] then
        Inr [\<lparr>fileHeader_name = ''data'', extraction = None\<rparr>,
             \<lparr>fileHeader_name = ''data/a.shp'', extraction = Some [11]\<rparr>,
             \<lparr>fileHeader_name = ''data/a.dbf'', extraction = Some [12]\<rparr>,
             \<lparr>fileHeader_name = ''data/b.shx'', extraction = Some [13]\<rparr>]
      else if rarData = [2] then
        Inr [\<lparr>fileHeader_name = ''a.shp'', extraction = Some [11]\<rparr>,
             \<lparr>fileHeader_name = ''a.dbf'', extraction = Some [12]\<rparr>,
             \<lparr>fileHeader_name = ''a.prj'', extraction = Some (ascii_bytes ''PROJCS[WGS_1984_UTM_Zone_48N]'')\<rparr>,
             \<lparr>fileHeader_name = ''c.dbf'', extraction = Some [22]\<rparr>,
             \<lparr>fileHeader_name = ''c.shp'', extraction = Some [21]\<rparr>]
      else if rarData = [3] then
        Inr [\<lparr>fileHeader_name = ''b.shx'', extraction = Some [13]\<rparr>,
             \<lparr>fileHeader_name = ''readme.txt'', extraction = Some [14]\<rparr>]
      else if rarData = [4] then
        Inr [\<lparr>fileHeader_name = ''A.SHP'', extraction = Some [11]\<rparr>,
             \<lparr>fileHeader_name = ''A.DBF'', extraction = Some [12]\<rparr>]
      else Inl (Error ''not a RAR archive''))"

definition sample_env :: "int env" where
  "sample_env =
     \<lparr>fetch = (\<lambda>u.
        if u = ''https://example.org/one.rar'' then Inr \<lparr>ok = True, http_status = 200, arrayBuffer = Inr [1]\<rparr>
        else if u = ''https://example.org/two.rar'' then Inr \<lparr>ok = True, http_status = 200, arrayBuffer = Inr [2]\<rparr>
        else if u = ''https://example.org/none.rar'' then Inr \<lparr>ok = True, http_status = 200, arrayBuffer = Inr [3]\<rparr>
        else if u = ''https://example.org/upper.rar'' then Inr \<lparr>ok = True, http_status = 200, arrayBuffer = Inr [4]\<rparr>
        else Inr \<lparr>ok = False, http_status = 404, arrayBuffer = Inr []\<rparr>),
      readFile = (\<lambda>p. Inl (Error ''ENOENT: no such file or directory'')),
      createExtractorFromData = (\<lambda>rarData. case sample_unrar rarData of Inl e \<Rightarrow> Some e | Inr files \<Rightarrow> None),
      extracted_files = sample_unrar,
      mkdir = (\<lambda>p. None),
      toString_utf8 = ascii_text,
      shapefile_open = (\<lambda>shp dbf encoding.
        if shp = [11] then Inr \<lparr>records = [sample_point], read_error = None\<rparr>
        else if shp = [21] then Inr \<lparr>records = [sample_line, sample_null], read_error = None\<rparr>
        else Inl (Error ''unsupported shape file'')),
      proj4 = sample_proj4,
      simplify = sample_simplify,
      number_toString = int_toString,
      writeFile = (\<lambda>p data. if startsWith p ''output/'' then None else Some (Error ''EACCES: permission denied''))\<rparr>"

definition sample_point_wgs :: "int feature" where
  "sample_point_wgs = \<lparr>properties = JObj [(''name'', JStr ''well'')],
       geometry = Some [(''type'', JStr ''Point''), (''coordinates'', JArr [JNum 5, JNum 15])]\<rparr>"

section \<open>Properties of the string functions\<close>

lemma startsWith_iff: "startsWith s t \<longleftrightarrow> (\<exists>q. s = t @ q)"
  by (induction s t rule: startsWith.induct) auto

lemma includes_str_iff: "includes_str s t \<longleftrightarrow> (\<exists>p q. s = p @ t @ q)"
proof (induction s)
  case Nil
  then show ?case by simp
next
  case (Cons d s)
  show ?case
  proof
    assume "includes_str (d # s) t"
    then consider "startsWith (d # s) t" | "includes_str s t" by auto
    then show "\<exists>p q. d # s = p @ t @ q"
    proof cases
      case 1
      then obtain q where "d # s = t @ q" by (auto simp: startsWith_iff)
      then have "d # s = [] @ t @ q" by simp
      then show ?thesis by blast
    next
      case 2
      then obtain p q where "s = p @ t @ q" using Cons.IH by blast
      then have "d # s = (d # p) @ t @ q" by simp
      then show ?thesis by blast
    qed
  next
    assume "\<exists>p q. d # s = p @ t @ q"
    then obtain p q where pq: "d # s = p @ t @ q" by blast
    show "includes_str (d # s) t"
    proof (cases p)
      case Nil
      with pq have "startsWith (d # s) t" by (auto simp: startsWith_iff)
      then show ?thesis by simp
    next
      case (Cons e p')
      with pq have "s = p' @ t @ q" by simp
      then have "includes_str s t" using Cons.IH by blast
      then show ?thesis by simp
    qed
  qed
qed

lemma byte_char: "char_of (unat (of_char c :: 8 word)) = c"
proof -
  have "unat (of_char c :: 8 word) = unat (of_nat (of_char c) :: 8 word)"
    by (simp only: of_nat_of_char)
  also have "\<dots> = (of_char c :: nat) mod 256"
    by (simp add: unat_of_nat)
  finally show ?thesis by simp
qed

lemma ascii_roundtrip: "ascii_text (ascii_bytes s) = s"
  by (induction s) (simp_all add: ascii_text_def ascii_bytes_def byte_char)

section \<open>Properties of objects\<close>

lemma map_of_insert_index:
  "map_of kvs k = None \<Longrightarrow> map_of (insert_index n k v kvs) = (map_of kvs)(k \<mapsto> v)"
  by (induction kvs) (auto simp: fun_eq_iff split: option.splits if_splits)

lemma map_of_obj_set: "map_of (obj_set k v kvs) = (map_of kvs)(k \<mapsto> v)"
  by (auto simp: obj_set_def map_of_insert_index update_conv' fun_eq_iff map_add_def
      split: option.splits)

lemma keys_insert_index: "fst ` set (insert_index n k v kvs) = insert k (fst ` set kvs)"
proof (induction kvs)
  case Nil
  then show ?case by simp
next
  case (Cons kv kvs)
  obtain k' v' where kv: "kv = (k', v')" by (cases kv)
  show ?case
  proof (cases "array_index k'")
    case None
    with kv show ?thesis by auto
  next
    case (Some m)
    with kv Cons show ?thesis by (cases "m < n") auto
  qed
qed

lemma keys_obj_set: "fst ` set (obj_set k v kvs) = insert k (fst ` set kvs)"
proof (cases "map_of kvs k")
  case None
  then show ?thesis
    by (auto simp: obj_set_def keys_insert_index split: option.splits)
next
  case (Some old)
  then have "k \<in> fst ` set kvs" by (metis map_of_eq_None_iff option.distinct(1))
  with Some show ?thesis by (auto simp: obj_set_def dom_update)
qed

lemma distinct_insert_index:
  "distinct (map fst kvs) \<Longrightarrow> k \<notin> fst ` set kvs \<Longrightarrow> distinct (map fst (insert_index n k v kvs))"
  by (induction kvs) (auto simp: keys_insert_index split: option.splits)

lemma distinct_obj_set: "distinct (map fst kvs) \<Longrightarrow> distinct (map fst (obj_set k v kvs))"
  by (auto simp: obj_set_def distinct_insert_index distinct_update map_of_eq_None_iff split: option.splits)

section \<open>The projection resolver recognises its markers\<close>

text \<open>
  C1. An absent buffer gives \<open>null\<close>. A text with one of the two "UTM Zone 47" markers
  gives the UTM 47N definition; a text with a "UTM Zone 48" marker and no 47 marker gives
  the UTM 48N definition; a text with a WGS84 marker and none of the four before gives
  \<open>EPSG:4326\<close>; a text with no marker is returned as it was decoded.
\<close>

theorem parsePrjFile_markers:
  "parsePrjFile dec None = None
   \<and> (includes_str (dec buf) ''UTM_Zone_47'' \<or> includes_str (dec buf) ''UTM Zone 47''
        \<longrightarrow> parsePrjFile dec (Some buf) = Some UTM_ZONE_47N)
   \<and> (\<not> includes_str (dec buf) ''UTM_Zone_47'' \<and> \<not> includes_str (dec buf) ''UTM Zone 47''
        \<and> (includes_str (dec buf) ''UTM_Zone_48'' \<or> includes_str (dec buf) ''UTM Zone 48'')
        \<longrightarrow> parsePrjFile dec (Some buf) = Some UTM_ZONE_48N)
   \<and> (\<not> includes_str (dec buf) ''UTM_Zone_47'' \<and> \<not> includes_str (dec buf) ''UTM Zone 47''
        \<and> \<not> includes_str (dec buf) ''UTM_Zone_48'' \<and> \<not> includes_str (dec buf) ''UTM Zone 48''
        \<and> (includes_str (dec buf) ''GCS_WGS_1984'' \<or> includes_str (dec buf) ''WGS 84'')
        \<longrightarrow> parsePrjFile dec (Some buf) = Some WGS84)
   \<and> (\<not> includes_str (dec buf) ''UTM_Zone_47'' \<and> \<not> includes_str (dec buf) ''UTM Zone 47''
        \<and> \<not> includes_str (dec buf) ''UTM_Zone_48'' \<and> \<not> includes_str (dec buf) ''UTM Zone 48''
        \<and> \<not> includes_str (dec buf) ''GCS_WGS_1984'' \<and> \<not> includes_str (dec buf) ''WGS 84''
        \<longrightarrow> parsePrjFile dec (Some buf) = Some (dec buf))"
  by (simp add: parsePrjFile_def Let_def)

theorem parsePrjFile_markers_witness:
  "parsePrjFile ascii_text (Some (ascii_bytes ''PROJCS[WGS_1984_UTM_Zone_47N,GEOGCS[GCS_WGS_1984]]''))
     = Some UTM_ZONE_47N
   \<and> parsePrjFile ascii_text (Some (ascii_bytes ''PROJCS[WGS 84 / UTM Zone 48N]'')) = Some UTM_ZONE_48N
   \<and> parsePrjFile ascii_text (Some (ascii_bytes ''GEOGCS[GCS_WGS_1984]'')) = Some WGS84
   \<and> parsePrjFile ascii_text (Some (ascii_bytes ''LOCAL_CS[site grid]'')) = Some ''LOCAL_CS[site grid]''"
proof -
  have a: "includes_str ''PROJCS[WGS_1984_UTM_Zone_47N,GEOGCS[GCS_WGS_1984]]'' ''UTM_Zone_47''"
    by simp
  have b: "\<not> includes_str ''PROJCS[WGS 84 / UTM Zone 48N]'' ''UTM_Zone_47''"
    "\<not> includes_str ''PROJCS[WGS 84 / UTM Zone 48N]'' ''UTM Zone 47''"
    "includes_str ''PROJCS[WGS 84 / UTM Zone 48N]'' ''UTM Zone 48''"
    by simp_all
  have c: "\<not> includes_str ''GEOGCS[GCS_WGS_1984]'' ''UTM_Zone_47''"
    "\<not> includes_str ''GEOGCS[GCS_WGS_1984]'' ''UTM Zone 47''"
    "\<not> includes_str ''GEOGCS[GCS_WGS_1984]'' ''UTM_Zone_48''"
    "\<not> includes_str ''GEOGCS[GCS_WGS_1984]'' ''UTM Zone 48''"
    "includes_str ''GEOGCS[GCS_WGS_1984]'' ''GCS_WGS_1984''"
    by simp_all
  have d: "\<not> includes_str ''LOCAL_CS[site grid]'' ''UTM_Zone_47''"
    "\<not> includes_str ''LOCAL_CS[site grid]'' ''UTM Zone 47''"
    "\<not> includes_str ''LOCAL_CS[site grid]'' ''UTM_Zone_48''"
    "\<not> includes_str ''LOCAL_CS[site grid]'' ''UTM Zone 48''"
    "\<not> includes_str ''LOCAL_CS[site grid]'' ''GCS_WGS_1984''"
    "\<not> includes_str ''LOCAL_CS[site grid]'' ''WGS 84''"
    by simp_all
  have "parsePrjFile ascii_text (Some (ascii_bytes ''PROJCS[WGS_1984_UTM_Zone_47N,GEOGCS[GCS_WGS_1984]]''))
     = Some UTM_ZONE_47N"
    using a parsePrjFile_markers [of ascii_text "ascii_bytes ''PROJCS[WGS_1984_UTM_Zone_47N,GEOGCS[GCS_WGS_1984]]''"]
    unfolding ascii_roundtrip by blast
  moreover have "parsePrjFile ascii_text (Some (ascii_bytes ''PROJCS[WGS 84 / UTM Zone 48N]'')) = Some UTM_ZONE_48N"
    using b parsePrjFile_markers [of ascii_text "ascii_bytes ''PROJCS[WGS 84 / UTM Zone 48N]''"]
    unfolding ascii_roundtrip by blast
  moreover have "parsePrjFile ascii_text (Some (ascii_bytes ''GEOGCS[GCS_WGS_1984]'')) = Some WGS84"
    using c parsePrjFile_markers [of ascii_text "ascii_bytes ''GEOGCS[GCS_WGS_1984]''"]
    unfolding ascii_roundtrip by blast
  moreover have "parsePrjFile ascii_text (Some (ascii_bytes ''LOCAL_CS[site grid]'')) = Some ''LOCAL_CS[site grid]''"
    using d parsePrjFile_markers [of ascii_text "ascii_bytes ''LOCAL_CS[site grid]''"]
    unfolding ascii_roundtrip by blast
  ultimately show ?thesis by simp
qed

section \<open>Reprojection is the identity on geographic input\<close>

text \<open>
  C2. With the source CRS absent, or equal to the WGS84 code, \<open>transformGeometry\<close>
  returns the geometry it was given, whatever the projection library is.
\<close>

theorem transformGeometry_identity:
  "transformGeometry lib g None = Inr g \<and> transformGeometry lib g (Some WGS84) = Inr g"
  by (simp add: transformGeometry_def)

section \<open>The walk fails on coordinates of the wrong depth\<close>


lemma depth_of_type_None:
  "depth_of_type ty = None \<longleftrightarrow> ty \<notin> set (map (JStr \<circ> fst) spec_depth_table)"
  by (auto simp: depth_of_type_def spec_depth_table_def)






section \<open>The result is a new object and the input is left alone\<close>

lemma mapM_h_extends:
  assumes "\<And>h x y h'. x \<in> set xs \<Longrightarrow> f h x = Inr (y, h') \<Longrightarrow> \<exists>ext. h' = h @ ext"
    and "mapM_h f xs h = Inr (ys, h')"
  shows "\<exists>ext. h' = h @ ext"
  using assms
proof (induction xs arbitrary: h ys h')
  case Nil
  then show ?case by simp
next
  case (Cons x xs)
  from Cons.prems(2) obtain y h1 ys' where
    1: "f h x = Inr (y, h1)" and 2: "mapM_h f xs h1 = Inr (ys', h')"
    by (auto split: sum.splits)
  from Cons.prems(1) [OF _ 1] obtain e1 where e1: "h1 = h @ e1" by auto
  have "\<exists>ext. h' = h1 @ ext"
    using Cons.IH [OF _ 2] Cons.prems(1) by (meson list.set_intros(2))
  then obtain e2 where "h' = h1 @ e2" by blast
  with e1 have "h' = h @ (e1 @ e2)" by simp
  then show ?case by blast
qed

lemma transformCoords_h_extends:
  "transformCoords_h forward d h coords = Inr (r, h') \<Longrightarrow> \<exists>ext. h' = h @ ext"
proof (induction d arbitrary: h coords r h')
  case 0
  then show ?case
    by (auto simp: alloc_def split: sum.splits prod.splits)
next
  case (Suc d)
  from Suc.prems obtain a cs rs h1 where
    m: "mapM_h (transformCoords_h forward d) cs h = Inr (rs, h1)" and h': "h' = h1 @ [Arr rs]"
    by (auto simp: alloc_def split: val.splits option.splits cell.splits sum.splits prod.splits)
  have "\<exists>ext. h1 = h @ ext"
    using mapM_h_extends [OF _ m] Suc.IH by blast
  then obtain e where "h1 = h @ e" by blast
  with h' have "h' = h @ (e @ [Arr rs])" by simp
  then show ?case by blast
qed

lemma transformCoords_h_fresh:
  "transformCoords_h forward d h coords = Inr (r, h') \<Longrightarrow> \<exists>a. r = VRef a \<and> length h \<le> a"
proof (cases d)
  case 0
  assume "transformCoords_h forward d h coords = Inr (r, h')"
  with 0 show ?thesis
    by (auto simp: alloc_def split: sum.splits prod.splits)
next
  case (Suc d')
  assume run: "transformCoords_h forward d h coords = Inr (r, h')"
  with Suc obtain cs rs h1 where
    m: "mapM_h (transformCoords_h forward d') cs h = Inr (rs, h1)" and r: "r = VRef (length h1)"
    by (auto simp: alloc_def split: val.splits option.splits cell.splits sum.splits prod.splits)
  have "\<exists>ext. h1 = h @ ext"
    using mapM_h_extends [OF _ m] transformCoords_h_extends by blast
  with r show ?thesis by auto
qed

text \<open>
  C4. Let \<open>geom\<close> be the address of a geometry object with properties \<open>props\<close> and let
  the source CRS be neither absent nor WGS84. When \<open>transformGeometry\<close> returns, its
  result is the address of a cell that did not exist before (so it is not the input);
  every cell that existed before, the input geometry and all it refers to among them,
  is as it was; and the new object has, for every key but \<open>coordinates\<close>, the value
  that the input has, an address being shared. Its properties are those of the input,
  or those of the input with \<open>coordinates\<close> set to the address of a new array.
\<close>

theorem transformGeometry_h_frame:
  assumes g: "cell_at h geom = Some (Obj props)"
    and crs: "crs \<noteq> []" "crs \<noteq> WGS84"
    and run: "transformGeometry_h lib h geom (Some crs) = Inr (result, h')"
  shows "length h \<le> result
       \<and> take (length h) h' = h
       \<and> cell_at h' geom = Some (Obj props)
       \<and> (\<exists>props'. cell_at h' result = Some (Obj props')
             \<and> (\<forall>k. k \<noteq> ''coordinates'' \<longrightarrow> map_of props' k = map_of props k)
             \<and> (props' = props
                 \<or> (\<exists>c. length h < c \<and> props' = obj_set ''coordinates'' (VRef c) props)))"
proof -
  from g have lt: "geom < length h" and at: "h ! geom = Obj props"
    by (auto simp: cell_at_def split: if_splits)
  from run crs obtain forward where "lib crs WGS84 = Inr forward"
    by (auto simp: transformGeometry_h_def WGS84_def split: sum.splits)
  with run crs g have body:
    "(case depth_of_type_h (property props ''type'') of
        None \<Rightarrow> Inr (length h, h @ [Obj props])
      | Some depth \<Rightarrow>
          (case transformCoords_h forward depth (h @ [Obj props]) (property props ''coordinates'') of
             Inl e \<Rightarrow> Inl e
           | Inr (coords, h2) \<Rightarrow> Inr (length h, set_property (length h) ''coordinates'' coords h2)))
     = Inr (result, h')"
    by (simp add: transformGeometry_h_def WGS84_def alloc_def)
  show ?thesis
  proof (cases "depth_of_type_h (property props ''type'')")
    case None
    with body have "result = length h" "h' = h @ [Obj props]" by simp_all
    with lt at show ?thesis by (auto simp: cell_at_def nth_append)
  next
    case (Some depth)
    with body obtain coords h2 where
      walk: "transformCoords_h forward depth (h @ [Obj props]) (property props ''coordinates'') = Inr (coords, h2)"
      and t: "result = length h"
      and h': "h' = set_property (length h) ''coordinates'' coords h2"
      by (auto split: sum.splits)
    from transformCoords_h_extends [OF walk] obtain ext where h2: "h2 = h @ [Obj props] @ ext"
      by auto
    from transformCoords_h_fresh [OF walk] obtain c where c: "coords = VRef c" "length h < c"
      by auto
    from h2 have "cell_at h2 (length h) = Some (Obj props)"
      by (simp add: cell_at_def nth_append)
    with h' have h'_eq: "h' = h2[length h := Obj (obj_set ''coordinates'' coords props)]"
      by (simp add: set_property_def)
    have 1: "take (length h) h' = h" using h'_eq h2 by simp
    have 2: "cell_at h' geom = Some (Obj props)"
      using h'_eq h2 lt at by (simp add: cell_at_def nth_append)
    have 3: "cell_at h' result = Some (Obj (obj_set ''coordinates'' (VRef c) props))"
      using h'_eq h2 t c by (simp add: cell_at_def)
    have 4: "\<forall>k. k \<noteq> ''coordinates'' \<longrightarrow>
                map_of (obj_set ''coordinates'' (VRef c) props) k = map_of props k"
      by (simp add: map_of_obj_set)
    from t 1 2 3 4 c(2) show ?thesis by auto
  qed
qed

lemma sample_heap_run:
  "transformGeometry_h sample_proj4_h sample_heap 2 (Some UTM_ZONE_47N)
     = Inr (3, sample_heap @
              [Obj [(''type'', VStr ''Point''), (''bbox'', VRef 1), (''coordinates'', VRef 5)],
               Arr [VNum 5, VNum 15],
               Arr [VNum 5, VNum 15]])"
  by code_simp

theorem transformGeometry_h_frame_witness:
  "length sample_heap \<le> 3
   \<and> take (length sample_heap)
        (sample_heap @
           [Obj [(''type'', VStr ''Point''), (''bbox'', VRef 1), (''coordinates'', VRef 5)],
            Arr [VNum 5, VNum 15],
            Arr [VNum 5, VNum 15]]) = sample_heap
   \<and> cell_at (sample_heap @
           [Obj [(''type'', VStr ''Point''), (''bbox'', VRef 1), (''coordinates'', VRef 5)],
            Arr [VNum 5, VNum 15],
            Arr [VNum 5, VNum 15]]) 2
       = Some (Obj [(''type'', VStr ''Point''), (''bbox'', VRef 1), (''coordinates'', VRef 0)])
   \<and> (\<exists>props'. cell_at (sample_heap @
           [Obj [(''type'', VStr ''Point''), (''bbox'', VRef 1), (''coordinates'', VRef 5)],
            Arr [VNum 5, VNum 15],
            Arr [VNum 5, VNum 15]]) 3 = Some (Obj props')
         \<and> (\<forall>k. k \<noteq> ''coordinates'' \<longrightarrow>
               map_of props' k
                 = map_of [(''type'', VStr ''Point''), (''bbox'', VRef 1), (''coordinates'', VRef 0)] k)
         \<and> (props' = [(''type'', VStr ''Point''), (''bbox'', VRef 1), (''coordinates'', VRef 0)]
             \<or> (\<exists>c. length sample_heap < c
                   \<and> props' = obj_set ''coordinates'' (VRef c)
                        [(''type'', VStr ''Point''), (''bbox'', VRef 1), (''coordinates'', VRef 0)])))"
proof -
  have 1: "cell_at sample_heap 2
             = Some (Obj [(''type'', VStr ''Point''), (''bbox'', VRef 1), (''coordinates'', VRef 0)])"
    by (simp add: cell_at_def sample_heap_def)
  have 2: "UTM_ZONE_47N \<noteq> []" "UTM_ZONE_47N \<noteq> WGS84"
    by (simp_all add: UTM_ZONE_47N_def WGS84_def)
  show ?thesis
    by (rule transformGeometry_h_frame [OF 1 2 sample_heap_run])
qed

section \<open>Geometries of other kinds pass through\<close>

text \<open>
  C5, as the code has it. A geometry whose \<open>type\<close> is none of the six recognized kinds
  is returned with every property, the coordinates included, as it was: at once when
  the source CRS is absent, empty or WGS84, and after the projection constructor has
  accepted the source CRS otherwise. The constructor runs before the \<open>switch\<close>, so a
  source CRS that it rejects makes \<open>transformGeometry\<close> throw for these geometries too.
\<close>

theorem transformGeometry_unrecognized:
  assumes "obj_get g ''type'' \<notin> set (map (JStr \<circ> fst) spec_depth_table)"
  shows "transformGeometry lib g crs =
           (case crs of
              None \<Rightarrow> Inr g
            | Some c \<Rightarrow>
                if c = [] \<or> c = WGS84 then Inr g
                else (case lib c WGS84 of Inl e \<Rightarrow> Inl e | Inr forward \<Rightarrow> Inr g))"
proof -
  have "depth_of_type (obj_get g ''type'') = None"
    using assms depth_of_type_None by blast
  then show ?thesis
    by (auto simp: transformGeometry_def WGS84_def split: option.splits sum.splits)
qed

theorem transformGeometry_unrecognized_witness:
  "transformGeometry sample_proj4 [(''type'', JStr ''GeometryCollection''), (''geometries'', JArr [])]
        (Some UTM_ZONE_48N) = Inr [(''type'', JStr ''GeometryCollection''), (''geometries'', JArr [])]"
proof -
  let ?g = "[(''type'', JStr ''GeometryCollection''), (''geometries'', JArr [])] :: int jsval obj"
  have 1: "obj_get ?g ''type'' \<notin> set (map (JStr \<circ> fst) spec_depth_table)"
    by (simp add: obj_get_def spec_depth_table_def)
  show ?thesis
    using transformGeometry_unrecognized [OF 1, of sample_proj4 "Some UTM_ZONE_48N"]
    by (simp add: sample_proj4_def UTM_ZONE_48N_def WGS84_def)
qed
text \<open>
  The claim as it was stated, that no source CRS makes the pass-through throw, fails on
  the text of a projection file that the resolver hands on unrecognized.
\<close>

theorem transformGeometry_unrecognized_counterexample:
  "obj_get [(''type'', JStr ''GeometryCollection''), (''geometries'', JArr [])] ''type''
      \<notin> set (map (JStr \<circ> fst) spec_depth_table)
   \<and> transformGeometry sample_proj4 [(''type'', JStr ''GeometryCollection''), (''geometries'', JArr [])]
        (Some ''unknown projection'') = Inl (ThrownString ''Could not parse to valid json: unknown projection'')"
  by (simp add: transformGeometry_def sample_proj4_def UTM_ZONE_47N_def UTM_ZONE_48N_def WGS84_def
      obj_get_def depth_of_type_def spec_depth_table_def)

section \<open>Grouping by base name\<close>

lemma distinct_add_shape_file:
  "distinct (map fst (fst state)) \<Longrightarrow> distinct (map fst (fst (add_shape_file file state)))"
  by (cases state)
    (auto simp: add_shape_file_def Let_def distinct_obj_set split: option.splits)

lemma distinct_fold_add:
  "distinct (map fst (fst state)) \<Longrightarrow> distinct (map fst (fst (fold add_shape_file files state)))"
  by (induction files arbitrary: state) (auto simp: distinct_add_shape_file)

lemma distinct_group_shape_files: "distinct (map fst (fst (group_shape_files files proto)))"
  by (simp add: group_shape_files_def distinct_fold_add)

lemma convert_file_set_incomplete:
  "\<not> complete_set proto fileSet \<Longrightarrow> convert_file_set env proto name fileSet = Inr None"
  by (auto simp: convert_file_set_def complete_set_def split: option.splits)

lemma convert_file_set_complete:
  "complete_set proto fileSet \<Longrightarrow> convert_file_set env proto name fileSet = Inr r
     \<Longrightarrow> \<exists>features. r = Some (name, FeatureCollection features)"
  by (auto simp: convert_file_set_def complete_set_def Let_def split: option.splits sum.splits)

lemma convert_file_sets_results:
  "convert_file_sets env proto entries acc = Inr results \<Longrightarrow>
     \<exists>rs. results = acc @ rs
        \<and> map fst rs = map fst (filter (\<lambda>entry. complete_set proto (snd entry)) entries)
        \<and> (\<forall>r \<in> set rs. \<exists>features. snd r = FeatureCollection features)"
proof (induction entries arbitrary: acc)
  case Nil
  then show ?case by simp
next
  case (Cons entry entries)
  obtain name fileSet where entry: "entry = (name, fileSet)" by (cases entry)
  show ?case
  proof (cases "complete_set proto fileSet")
    case False
    then have "convert_file_set env proto name fileSet = Inr None"
      by (rule convert_file_set_incomplete)
    with Cons.prems entry have "convert_file_sets env proto entries acc = Inr results" by simp
    from Cons.IH [OF this] False entry show ?thesis by simp
  next
    case True
    from Cons.prems entry obtain r where r: "convert_file_set env proto name fileSet = Inr r"
      by (cases "convert_file_set env proto name fileSet") auto
    with True obtain features where f: "r = Some (name, FeatureCollection features)"
      using convert_file_set_complete by blast
    with Cons.prems entry r
    have "convert_file_sets env proto entries (acc @ [(name, FeatureCollection features)]) = Inr results"
      by simp
    from Cons.IH [OF this] obtain rs where rs:
      "results = (acc @ [(name, FeatureCollection features)]) @ rs"
      "map fst rs = map fst (filter (\<lambda>entry. complete_set proto (snd entry)) entries)"
      "\<forall>r \<in> set rs. \<exists>features. snd r = FeatureCollection features"
      by blast
    let ?rs = "(name, FeatureCollection features) # rs"
    have "results = acc @ ?rs" using rs(1) by simp
    moreover have "map fst ?rs
        = map fst (filter (\<lambda>entry. complete_set proto (snd entry)) (entry # entries))"
      using rs(2) True entry by simp
    moreover have "\<forall>r \<in> set ?rs. \<exists>features. snd r = FeatureCollection features"
      using rs(3) by auto
    ultimately show ?thesis by blast
  qed
qed

text \<open>
  The example of the specification: of the members \<open>a.shp\<close>, \<open>a.dbf\<close>, \<open>a.prj\<close> and
  \<open>b.shx\<close>, the set \<open>a\<close> is complete and the set \<open>b\<close> is not.
\<close>

lemma grouping_example:
  "group_shape_files
     [\<lparr>fileHeader_name = ''a.shp'', extraction = Some shp\<rparr>,
      \<lparr>fileHeader_name = ''a.dbf'', extraction = Some dbf\<rparr>,
      \<lparr>fileHeader_name = ''a.prj'', extraction = Some prj\<rparr>,
      \<lparr>fileHeader_name = ''b.shx'', extraction = Some shx\<rparr>] []
     = ([(''a'', [(''.shp'', shp), (''.dbf'', dbf), (''.prj'', prj)]), (''b'', [(''.shx'', shx)])], [])
   \<and> complete_set [] [(''.shp'', shp), (''.dbf'', dbf), (''.prj'', prj)]
   \<and> \<not> complete_set [] [(''.shx'', shx)]"
proof -
  have n1: "basename ''a.shp'' = ''a.shp''" "basename ''a.dbf'' = ''a.dbf''"
    "basename ''a.prj'' = ''a.prj''" "basename ''b.shx'' = ''b.shx''"
    by code_simp+
  have n2: "toLowerCase (extname ''a.shp'') = ''.shp''" "toLowerCase (extname ''a.dbf'') = ''.dbf''"
    "toLowerCase (extname ''a.prj'') = ''.prj''" "toLowerCase (extname ''b.shx'') = ''.shx''"
    by code_simp+
  have n3: "basename_ext ''a.shp'' ''.shp'' = ''a''" "basename_ext ''a.dbf'' ''.dbf'' = ''a''"
    "basename_ext ''a.prj'' ''.prj'' = ''a''" "basename_ext ''b.shx'' ''.shx'' = ''b''"
    by code_simp+
  have n4: "''a'' \<notin> set object_prototype_keys" "''b'' \<notin> set object_prototype_keys"
    "''.shp'' \<in> set shape_extensions" "''.dbf'' \<in> set shape_extensions"
    "''.prj'' \<in> set shape_extensions" "''.shx'' \<in> set shape_extensions"
    by code_simp+
  have n5: "array_index ''a'' = None" "array_index ''b'' = None"
    "array_index ''.shp'' = None" "array_index ''.dbf'' = None"
    "array_index ''.prj'' = None" "array_index ''.shx'' = None"
    by code_simp+
  show ?thesis
    by (simp add: group_shape_files_def add_shape_file_def n1 n2 n3 n4 n5 obj_set_def
        complete_set_def fileSet_get_def)
qed

text \<open>A set without a \<open>.prj\<close> entry is reprojected from UTM zone 47N.\<close>

lemma missing_prj_defaults:
  "fileSet_get [] fileSet ''.prj'' = None \<Longrightarrow>
     crs_or_default (parsePrjFile dec (fileSet_get [] fileSet ''.prj'')) = UTM_ZONE_47N"
  by (simp add: parsePrjFile_def crs_or_default_def)

text \<open>
  C6, at the input where the code leaves the claim. The extension is lowered before it
  is compared with the five extensions, so \<open>A.SHP\<close> and \<open>A.DBF\<close> are recognized; but the
  lowered extension is also what \<open>path.basename\<close> is asked to strip, and it does not
  strip \<open>.shp\<close> from \<open>A.SHP\<close>. The two members land in two component sets named after
  the whole file names, none of them complete, and nothing is converted.
\<close>

theorem upper_case_extensions_are_split:
  "group_shape_files
     [\<lparr>fileHeader_name = ''A.SHP'', extraction = Some shp\<rparr>,
      \<lparr>fileHeader_name = ''A.DBF'', extraction = Some dbf\<rparr>] []
     = ([(''A.SHP'', [(''.shp'', shp)]), (''A.DBF'', [(''.dbf'', dbf)])], [])
   \<and> convert_file_sets env []
        [(''A.SHP'', [(''.shp'', shp)]), (''A.DBF'', [(''.dbf'', dbf)])] [] = Inr []"
proof -
  have n1: "basename ''A.SHP'' = ''A.SHP''" "basename ''A.DBF'' = ''A.DBF''" by code_simp+
  have n2: "toLowerCase (extname ''A.SHP'') = ''.shp''" "toLowerCase (extname ''A.DBF'') = ''.dbf''"
    by code_simp+
  have n3: "basename_ext ''A.SHP'' ''.shp'' = ''A.SHP''" "basename_ext ''A.DBF'' ''.dbf'' = ''A.DBF''"
    by code_simp+
  have n4: "''A.SHP'' \<notin> set object_prototype_keys" "''A.DBF'' \<notin> set object_prototype_keys"
    "''.shp'' \<in> set shape_extensions" "''.dbf'' \<in> set shape_extensions"
    by code_simp+
  have n5: "array_index ''A.SHP'' = None" "array_index ''A.DBF'' = None"
    "array_index ''.shp'' = None" "array_index ''.dbf'' = None"
    by code_simp+
  show ?thesis
    by (simp add: group_shape_files_def add_shape_file_def n1 n2 n3 n4 n5 obj_set_def
        convert_file_set_def fileSet_get_def)
qed

text \<open>
  The claim also fails where a base name meets \<open>Object.prototype\<close>. The members
  \<open>toString.shp\<close> and \<open>toString.dbf\<close> make no component set at all. And after the member
  \<open>__proto__.shp\<close>, a set with nothing but a \<open>.dbf\<close> entry passes the test of the loop,
  with the content of \<open>__proto__.shp\<close> as its shapes.
\<close>

lemma prototype_names:
  "group_shape_files
     [\<lparr>fileHeader_name = ''toString.shp'', extraction = Some shp\<rparr>,
      \<lparr>fileHeader_name = ''toString.dbf'', extraction = Some dbf\<rparr>] [] = ([], [])
   \<and> group_shape_files
       [\<lparr>fileHeader_name = ''__proto__.shp'', extraction = Some shp\<rparr>,
        \<lparr>fileHeader_name = ''b.dbf'', extraction = Some dbf\<rparr>] []
       = ([(''b'', [(''.dbf'', dbf)])], [(''.shp'', shp)])
   \<and> complete_set [(''.shp'', shp)] [(''.dbf'', dbf)]"
proof -
  have n1: "basename ''toString.shp'' = ''toString.shp''" "basename ''toString.dbf'' = ''toString.dbf''"
    "basename ''__proto__.shp'' = ''__proto__.shp''" "basename ''b.dbf'' = ''b.dbf''"
    by code_simp+
  have n2: "toLowerCase (extname ''toString.shp'') = ''.shp''"
    "toLowerCase (extname ''toString.dbf'') = ''.dbf''"
    "toLowerCase (extname ''__proto__.shp'') = ''.shp''"
    "toLowerCase (extname ''b.dbf'') = ''.dbf''"
    by code_simp+
  have n3: "basename_ext ''toString.shp'' ''.shp'' = ''toString''"
    "basename_ext ''toString.dbf'' ''.dbf'' = ''toString''"
    "basename_ext ''__proto__.shp'' ''.shp'' = ''__proto__''"
    "basename_ext ''b.dbf'' ''.dbf'' = ''b''"
    by code_simp+
  have n4: "''toString'' \<in> set object_prototype_keys" "''b'' \<notin> set object_prototype_keys"
    "''.shp'' \<in> set shape_extensions" "''.dbf'' \<in> set shape_extensions"
    by code_simp+
  have n5: "array_index ''b'' = None" "array_index ''.shp'' = None" "array_index ''.dbf'' = None"
    by code_simp+
  show ?thesis
    by (simp add: group_shape_files_def add_shape_file_def n1 n2 n3 n4 n5 obj_set_def
        complete_set_def fileSet_get_def)
qed

section \<open>Which geometries are simplified\<close>

lemma obj_get_obj_set: "k' \<noteq> k \<Longrightarrow> obj_get (obj_set k v kvs) k' = obj_get kvs k'"
  by (simp add: obj_get_def map_of_obj_set)

lemma transformGeometry_type:
  "transformGeometry lib g crs = Inr g' \<Longrightarrow> obj_get g' ''type'' = obj_get g ''type''"
  by (auto simp: transformGeometry_def Let_def obj_get_obj_set
      split: option.splits if_splits sum.splits)

text \<open>
  C7. For a record with a geometry that the reprojection turns into \<open>g'\<close>: the type of
  \<open>g'\<close> is the type of the record's geometry, and the record is processed as follows.
  If that type is Polygon, MultiPolygon, LineString or MultiLineString, the feature with
  the reprojected geometry goes to the simplifier with the tolerance 0.001 and
  \<open>highQuality\<close> set, and the geometry of what comes back replaces the geometry. For any
  other type, Point and MultiPoint among them, the result is the feature with the
  reprojected geometry, whatever the simplifier is.
\<close>

theorem process_feature_simplify:
  assumes "geometry feature = Some g"
    and "transformGeometry (proj4 env) g (Some (crs_or_default sourceCRS)) = Inr g'"
  shows "obj_get g' ''type'' = obj_get g ''type''
     \<and> process_feature env sourceCRS feature =
         (if obj_get g ''type'' = JStr ''Polygon'' \<or> obj_get g ''type'' = JStr ''MultiPolygon''
             \<or> obj_get g ''type'' = JStr ''LineString'' \<or> obj_get g ''type'' = JStr ''MultiLineString''
          then (case simplify env (feature\<lparr>geometry := Some g'\<rparr>)
                       \<lparr>tolerance = 1 / 1000, highQuality = True\<rparr> of
                  Inl e \<Rightarrow> Inl e
                | Inr simplified \<Rightarrow> Inr (feature\<lparr>geometry := geometry simplified\<rparr>))
          else Inr (feature\<lparr>geometry := Some g'\<rparr>))"
proof -
  have ty: "obj_get g' ''type'' = obj_get g ''type''"
    using assms(2) by (rule transformGeometry_type)
  show ?thesis
    using assms ty
    by (simp add: process_feature_def Let_def ENABLE_SIMPLIFY_def SIMPLIFY_TOLERANCE_def
        split: sum.splits)
qed

lemma sample_line_transformed:
  "transformGeometry sample_proj4
     [(''type'', JStr ''LineString''),
      (''coordinates'', JArr [JArr [JNum 500000, JNum 1500000], JArr [JNum 600000, JNum 1600000]])]
     (Some UTM_ZONE_47N)
   = Inr [(''type'', JStr ''LineString''), (''coordinates'', JArr [JArr [JNum 5, JNum 15], JArr [JNum 6, JNum 16]])]"
  by code_simp

lemma sample_point_transformed:
  "transformGeometry sample_proj4
     [(''type'', JStr ''Point''), (''coordinates'', JArr [JNum 500000, JNum 1500000])]
     (Some UTM_ZONE_47N)
   = Inr [(''type'', JStr ''Point''), (''coordinates'', JArr [JNum 5, JNum 15])]"
  by code_simp

theorem process_feature_simplify_witness:
  "process_feature sample_env None sample_line
     = Inr \<lparr>properties = JObj [(''name'', JStr ''road'')],
            geometry = Some [(''type'', JStr ''LineString''),
                             (''coordinates'', JArr [JArr [JNum 5, JNum 15], JArr [JNum 6, JNum 16]]),
                             (''simplified'', JBool True)]\<rparr>
   \<and> process_feature sample_env None sample_point
     = Inr \<lparr>properties = JObj [(''name'', JStr ''well'')],
            geometry = Some [(''type'', JStr ''Point''), (''coordinates'', JArr [JNum 5, JNum 15])]\<rparr>"
proof -
  have crs: "crs_or_default None = UTM_ZONE_47N" by (simp add: crs_or_default_def)
  have lib: "proj4 sample_env = sample_proj4" by (simp add: sample_env_def)
  have simp_line: "simplify sample_env
       \<lparr>properties = JObj [(''name'', JStr ''road'')],
        geometry = Some [(''type'', JStr ''LineString''), (''coordinates'', JArr [JArr [JNum 5, JNum 15], JArr [JNum 6, JNum 16]])]\<rparr>
       \<lparr>tolerance = 1 / 1000, highQuality = True\<rparr>
     = Inr \<lparr>properties = JObj [(''name'', JStr ''road'')],
            geometry = Some [(''type'', JStr ''LineString''),
                             (''coordinates'', JArr [JArr [JNum 5, JNum 15], JArr [JNum 6, JNum 16]]),
                             (''simplified'', JBool True)]\<rparr>"
  proof -
    have "obj_set ''simplified'' (JBool True)
            [(''type'', JStr ''LineString''),
             (''coordinates'', JArr [JArr [JNum (5::int), JNum 15], JArr [JNum 6, JNum 16]])]
          = [(''type'', JStr ''LineString''),
             (''coordinates'', JArr [JArr [JNum 5, JNum 15], JArr [JNum 6, JNum 16]]),
             (''simplified'', JBool True)]"
      by code_simp
    then show ?thesis by (simp add: sample_env_def sample_simplify_def)
  qed
  have "process_feature sample_env None sample_line
     = Inr \<lparr>properties = JObj [(''name'', JStr ''road'')],
            geometry = Some [(''type'', JStr ''LineString''),
                             (''coordinates'', JArr [JArr [JNum 5, JNum 15], JArr [JNum 6, JNum 16]]),
                             (''simplified'', JBool True)]\<rparr>"
    using process_feature_simplify [of sample_line _ sample_env None, OF _ sample_line_transformed [folded lib crs]]
    by (simp add: sample_line_def obj_get_def simp_line)
  moreover have "process_feature sample_env None sample_point
     = Inr \<lparr>properties = JObj [(''name'', JStr ''well'')],
            geometry = Some [(''type'', JStr ''Point''), (''coordinates'', JArr [JNum 5, JNum 15])]\<rparr>"
    using process_feature_simplify [of sample_point _ sample_env None, OF _ sample_point_transformed [folded lib crs]]
    by (simp add: sample_point_def obj_get_def)
  ultimately show ?thesis by simp
qed

section \<open>The file that is written\<close>

lemma map_of_combine:
  "map_of (fold (\<lambda>r combined. obj_set (fst r) (snd r) combined) results combined)
     = map_of combined ++ map_of (rev results)"
proof (induction results arbitrary: combined)
  case Nil
  then show ?case by simp
next
  case (Cons r results)
  have "map_of (obj_set (fst r) (snd r) combined) ++ map_of (rev results)
        = map_of combined ++ map_of (rev results @ [r])"
    by (cases r) (auto simp: map_of_obj_set fun_eq_iff map_add_def split: option.splits)
  with Cons show ?case by simp
qed

lemma keys_combine:
  "fst ` set (fold (\<lambda>r combined. obj_set (fst r) (snd r) combined) results combined)
     = fst ` set combined \<union> fst ` set results"
  by (induction results arbitrary: combined) (auto simp: keys_obj_set)

lemma distinct_combine:
  "distinct (map fst combined) \<Longrightarrow>
     distinct (map fst (fold (\<lambda>r combined. obj_set (fst r) (snd r) combined) results combined))"
  by (induction results arbitrary: combined) (auto simp: distinct_obj_set)

lemma combine_results_lookup:
  assumes "distinct (map fst results)" and "r \<in> set results"
  shows "map_of (combine_results results) (fst r) = Some (snd r)"
proof -
  have "distinct (map fst (rev results))" using assms(1) by (simp add: rev_map [symmetric])
  moreover have "(fst r, snd r) \<in> set (rev results)" using assms(2) by simp
  ultimately have "map_of (rev results) (fst r) = Some (snd r)" by (rule map_of_is_SomeI)
  then show ?thesis by (simp add: combine_results_def map_of_combine)
qed

lemma FeatureCollection_not_combined:
  assumes "\<forall>r \<in> set results. \<exists>features. snd r = FeatureCollection features"
  shows "JObj (combine_results results) \<noteq> FeatureCollection fs"
proof
  assume eq: "JObj (combine_results results) = FeatureCollection fs"
  then have "map_of (combine_results results) ''type'' = Some (JStr ''FeatureCollection'')"
    by (simp add: FeatureCollection_def)
  then have "map_of (rev results) ''type'' = Some (JStr ''FeatureCollection'')"
    by (simp add: combine_results_def map_of_combine)
  then have m: "(''type'', JStr ''FeatureCollection'') \<in> set results"
    by (auto dest: map_of_SomeD)
  from bspec [OF assms m] show False by (simp add: FeatureCollection_def)
qed

lemma stringify_object: "\<exists>text. JSON_stringify num (JObj kvs) = Some text"
  by (simp add: JSON_stringify_def Let_def)

lemma output_value_object:
  assumes "\<forall>r \<in> set results. \<exists>features. snd r = FeatureCollection features"
  shows "\<exists>kvs. output_value results = JObj kvs"
proof (cases "length results = 1")
  case True
  then obtain r where "results = [r]" by (cases results) auto
  with assms show ?thesis by (auto simp: output_value_def FeatureCollection_def)
next
  case False
  then show ?thesis by (simp add: output_value_def)
qed

text \<open>
  C8. Let the extractor be created, the scratch directory be made, the archive be
  extracted to \<open>files\<close>, and the conversion of the component sets give \<open>results\<close>. Then the
  value to write has a serialization \<open>text\<close>, and if writing it succeeds the run returns
  with \<open>text\<close> written to the output path (in both variants of the script). Every result
  carries a FeatureCollection. With exactly one result the value is that
  FeatureCollection itself. Otherwise the value is an object with one property per
  result, named by the base name of the set and holding its FeatureCollection, and
  this object is not a FeatureCollection.
\<close>

theorem written_file_shape:
  assumes extractor: "createExtractorFromData env rarData = None"
    and dir: "mkdir env ''./temp_extracted'' = None"
    and files: "extracted_files env rarData = Inr files"
    and groups: "group_shape_files files proto = (shapeFiles, proto')"
    and res: "convert_file_sets env proto' shapeFiles [] = Inr results"
  shows "\<exists>text. JSON_stringify (number_toString env) (output_value results) = Some text
           \<and> (writeFile env out text = None \<longrightarrow>
                 convert_rar_data env proto rarData out
                   = (Inr \<lparr>path = out, content = text\<rparr>, proto')
                 \<and> (download env u = Inr rarData \<longrightarrow>
                       extractRarAndConvert_url env proto u out
                         = (Inr \<lparr>path = out, content = text\<rparr>, proto'))
                 \<and> ((if startsWith u ''http://'' \<or> startsWith u ''https://''
                      then download env u else readFile env u) = Inr rarData \<longrightarrow>
                       extractRarAndConvert env proto u out
                         = (Inr \<lparr>path = out, content = text\<rparr>, proto')))
           \<and> (\<forall>r \<in> set results. \<exists>features. snd r = FeatureCollection features)
           \<and> (length results = 1 \<longrightarrow> output_value results = snd (hd results))
           \<and> (length results \<noteq> 1 \<longrightarrow>
                 output_value results = JObj (combine_results results)
                 \<and> distinct (map fst (combine_results results))
                 \<and> fst ` set (combine_results results) = fst ` set results
                 \<and> (\<forall>r \<in> set results. map_of (combine_results results) (fst r) = Some (snd r))
                 \<and> (\<forall>fs. JObj (combine_results results) \<noteq> FeatureCollection fs))"
proof -
  from convert_file_sets_results [OF res]
  have names: "map fst results = map fst (filter (\<lambda>entry. complete_set proto' (snd entry)) shapeFiles)"
    and fc: "\<forall>r \<in> set results. \<exists>features. snd r = FeatureCollection features"
    by auto
  have "distinct (map fst shapeFiles)"
    using distinct_group_shape_files [of files proto] groups by simp
  then have "distinct (map fst (filter (\<lambda>entry. complete_set proto' (snd entry)) shapeFiles))"
    by (rule distinct_map_filter)
  with names have dist: "distinct (map fst results)" by simp
  from output_value_object [OF fc] obtain kvs where "output_value results = JObj kvs" by blast
  with stringify_object [of "number_toString env" kvs] obtain str
    where str: "JSON_stringify (number_toString env) (output_value results) = Some str" by auto
  have run: "writeFile env out str = None \<longrightarrow>
               convert_rar_data env proto rarData out = (Inr \<lparr>path = out, content = str\<rparr>, proto')"
    using extractor dir files groups res str
    by (simp add: convert_rar_data_def write_results_def)
  have run_url: "writeFile env out str = None \<longrightarrow> download env u = Inr rarData \<longrightarrow>
                   extractRarAndConvert_url env proto u out
                     = (Inr \<lparr>path = out, content = str\<rparr>, proto')"
    using run by (simp add: extractRarAndConvert_url_def)
  have run_index: "writeFile env out str = None \<longrightarrow>
                    (if startsWith u ''http://'' \<or> startsWith u ''https://''
                     then download env u else readFile env u) = Inr rarData \<longrightarrow>
                    extractRarAndConvert env proto u out
                      = (Inr \<lparr>path = out, content = str\<rparr>, proto')"
    using run by (simp add: extractRarAndConvert_def)
  have one: "length results = 1 \<longrightarrow> output_value results = snd (hd results)"
    by (cases results) (auto simp: output_value_def)
  have many: "length results \<noteq> 1 \<longrightarrow> output_value results = JObj (combine_results results)"
    by (simp add: output_value_def)
  have d: "distinct (map fst (combine_results results))"
    by (simp add: combine_results_def distinct_combine)
  have k: "fst ` set (combine_results results) = fst ` set results"
    by (simp add: combine_results_def keys_combine)
  have l: "\<forall>r \<in> set results. map_of (combine_results results) (fst r) = Some (snd r)"
    using dist by (auto intro: combine_results_lookup)
  have n: "\<forall>fs. JObj (combine_results results) \<noteq> FeatureCollection fs"
    using fc by (auto dest: FeatureCollection_not_combined)
  have rest: "length results \<noteq> 1 \<longrightarrow>
                 output_value results = JObj (combine_results results)
                 \<and> distinct (map fst (combine_results results))
                 \<and> fst ` set (combine_results results) = fst ` set results
                 \<and> (\<forall>r \<in> set results. map_of (combine_results results) (fst r) = Some (snd r))
                 \<and> (\<forall>fs. JObj (combine_results results) \<noteq> FeatureCollection fs)"
    using many d k l n by (intro impI conjI) simp_all
  have runs: "writeFile env out str = None \<longrightarrow>
                 convert_rar_data env proto rarData out
                   = (Inr \<lparr>path = out, content = str\<rparr>, proto')
                 \<and> (download env u = Inr rarData \<longrightarrow>
                       extractRarAndConvert_url env proto u out
                         = (Inr \<lparr>path = out, content = str\<rparr>, proto'))
                 \<and> ((if startsWith u ''http://'' \<or> startsWith u ''https://''
                      then download env u else readFile env u) = Inr rarData \<longrightarrow>
                       extractRarAndConvert env proto u out
                         = (Inr \<lparr>path = out, content = str\<rparr>, proto'))"
    using run run_url run_index by (intro impI conjI) simp_all
  show ?thesis
    by (rule exI [of _ str]) (intro conjI str runs fc one rest)
qed

theorem written_file_shape_witness:
  "\<exists>text. JSON_stringify int_toString (FeatureCollection [sample_point_wgs]) = Some text
     \<and> extractRarAndConvert sample_env [] ''https://example.org/one.rar'' ''output/one.json''
          = (Inr \<lparr>path = ''output/one.json'', content = text\<rparr>, [])"
proof -
  let ?u = "''https://example.org/one.rar''"
  let ?out = "''output/one.json''"
  let ?files = "[\<lparr>fileHeader_name = ''data'', extraction = None\<rparr>,
             \<lparr>fileHeader_name = ''data/a.shp'', extraction = Some [11]\<rparr>,
             \<lparr>fileHeader_name = ''data/a.dbf'', extraction = Some [12]\<rparr>,
             \<lparr>fileHeader_name = ''data/b.shx'', extraction = Some [13]\<rparr>]"
  let ?shapeFiles = "[(''a'', [(''.shp'', [11]), (''.dbf'', [12])]), (''b'', [(''.shx'', [13])])]"
  let ?results = "[(''a'', FeatureCollection [sample_point_wgs])]"
  have 1: "createExtractorFromData sample_env [1] = None"
    by (simp add: sample_env_def sample_unrar_def)
  have 2: "mkdir sample_env ''./temp_extracted'' = None"
    by (simp add: sample_env_def)
  have 3: "extracted_files sample_env [1] = Inr ?files"
    by (simp add: sample_env_def sample_unrar_def)
  have 4: "group_shape_files ?files [] = (?shapeFiles, [])"
    by code_simp
  have 5: "convert_file_sets sample_env [] ?shapeFiles [] = Inr ?results"
    by code_simp
  have 6: "(if startsWith ?u ''http://'' \<or> startsWith ?u ''https://''
            then download sample_env ?u else readFile sample_env ?u) = Inr [1]"
    by code_simp
  have 7: "writeFile sample_env ?out t = None" for t
    by (simp add: sample_env_def)
  have 8: "number_toString sample_env = int_toString"
    by (simp add: sample_env_def)
  from written_file_shape [OF 1 2 3 4 5, of ?out ?u] 6 7 8
  show ?thesis by (auto simp: output_value_def)
qed

section \<open>The batch driver records every item\<close>





section \<open>An archive without a complete set\<close>





end
